theory Spec2Isabelle
  imports Complex_Main
begin

unbundle bit_operations_syntax

section \<open>Python values, exceptions and indexing\<close>

text \<open>
  The module \<^verbatim>\<open>pyzwaver/command.py\<close> is dynamically typed. The values that flow through
  its parsers, its assembler and its resolver are \<^verbatim>\<open>None\<close>, integers, floats, strings,
  \<^verbatim>\<open>bytes\<close>, lists and sets of integers. A Python \<^verbatim>\<open>str\<close> is a sequence of code points.

  Python floats are modelled by the real numbers they stand for: \<^verbatim>\<open>float(v)\<close> is the
  real \<open>v\<close> (exact in Python for \<open>\<bar>v\<bar> \<le> 2^53\<close>) and \<^verbatim>\<open>/\<close> is the real quotient
  (exact in Python whenever the quotient is a representable float).
\<close>

type_synonym pystr = "nat list"

datatype pyval =
    PNone
  | PInt int
  | PFloat real
  | PStr pystr
  | PBytes "int list"
  | PList "pyval list"
  | PSet "int set"

text \<open>A string literal of the source, as code points.\<close>

definition lit :: "string \<Rightarrow> pyval" where
  "lit s = PStr (map of_char s)"

text \<open>Every \<^verbatim>\<open>raise\<close>, failed \<^verbatim>\<open>assert\<close> and failed subscript is a value \<open>Inl e\<close>.\<close>

datatype error =
    IndexError
  | KeyError
  | TypeError
  | ValueError
  | AssertionError
  | UnicodeDecodeError
  | LookupError

definition bindE :: "error + 'a \<Rightarrow> ('a \<Rightarrow> error + 'b) \<Rightarrow> error + 'b" where
  "bindE r f = (case r of Inl e \<Rightarrow> Inl e | Inr x \<Rightarrow> f x)"

text \<open>
  A frame \<open>m\<close> is a Python list of integers and a cursor is a Python integer.
  \<^verbatim>\<open>m[i]\<close> counts a negative index from the end and raises IndexError out of range;
  the slice \<^verbatim>\<open>m[a:b]\<close> clips its bounds and never raises; \<^verbatim>\<open>m[a:]\<close> runs to the end.
\<close>

definition getitem :: "'a list \<Rightarrow> int \<Rightarrow> error + 'a" where
  "getitem m i =
     (let n = int (length m); j = (if i < 0 then i + n else i)
      in if 0 \<le> j \<and> j < n then Inr (m ! nat j) else Inl IndexError)"

definition clip :: "nat \<Rightarrow> int \<Rightarrow> nat" where
  "clip n i = (if i < 0 then nat (max (i + int n) 0) else nat (min i (int n)))"

definition slice :: "'a list \<Rightarrow> int \<Rightarrow> int \<Rightarrow> 'a list" where
  "slice m a b = drop (clip (length m) a) (take (clip (length m) b) m)"

definition slice_from :: "'a list \<Rightarrow> int \<Rightarrow> 'a list" where
  "slice_from m a = drop (clip (length m) a) m"

text \<open>A slice of the frame is again a list of integers.\<close>

definition int_list :: "int list \<Rightarrow> pyval" where
  "int_list xs = PList (map PInt xs)"

text \<open>\<^verbatim>\<open>bytes(xs)\<close> raises ValueError unless every element is in \<open>range(256)\<close>.\<close>

definition py_bytes :: "int list \<Rightarrow> error + int list" where
  "py_bytes xs = (if list_all (\<lambda>x. 0 \<le> x \<and> x < 256) xs then Inr xs else Inl ValueError)"

section \<open>Signed values and scaled readings\<close>

text \<open>
  \<^verbatim>\<open>_GetSignedValue(m, index, size)\<close>. On a Python integer \<^verbatim>\<open>~b\<close> is \<open>- b - 1\<close>,
  which is \<open>NOT b\<close> on \<open>int\<close>; \<^verbatim>\<open>value <<= 8\<close> is \<open>push_bit 8\<close>. The loop variable
  runs over \<^verbatim>\<open>range(size)\<close>, which is empty for a size below one.
\<close>

fun GetSignedValue_loop :: "int list \<Rightarrow> int \<Rightarrow> bool \<Rightarrow> nat list \<Rightarrow> int \<Rightarrow> error + int" where
  "GetSignedValue_loop m index negative [] val = Inr val"
| "GetSignedValue_loop m index negative (i # rest) val =
     bindE (getitem m (index + int i)) (\<lambda>b.
       GetSignedValue_loop m index negative rest
         (push_bit 8 val + (if negative then NOT b else b)))"

definition GetSignedValue :: "int list \<Rightarrow> int \<Rightarrow> int \<Rightarrow> error + real" where
  "GetSignedValue m index sz =
     bindE (getitem m index) (\<lambda>b0.
       let negative = (b0 AND 0x80 \<noteq> 0) in
       bindE (GetSignedValue_loop m index negative [0..<nat sz] 0) (\<lambda>val.
         if negative then Inr (- real_of_int (val + 1))
         else Inr (real_of_int val)))"

text \<open>
  \<^verbatim>\<open>_GetReading(m, index, units_extra)\<close> returns the new cursor and the pair
  \<^verbatim>\<open>[units, value]\<close>, which every caller unpacks at once.
\<close>

definition GetReading :: "int list \<Rightarrow> int \<Rightarrow> int \<Rightarrow> error + (int \<times> int \<times> real)" where
  "GetReading m index units_extra =
     bindE (getitem m index) (\<lambda>b.
       let sz = b AND 0x7;
           units = drop_bit 3 (b AND 0x18) OR units_extra;
           precision = drop_bit 5 (b AND 0xe0)
       in bindE (GetSignedValue m (index + 1) sz) (\<lambda>v.
            Inr (index + 1 + sz, units, v / 10 ^ nat precision)))"

definition GetTimeDelta :: "int list \<Rightarrow> int \<Rightarrow> error + (int \<times> int)" where
  "GetTimeDelta m index =
     bindE (getitem m index) (\<lambda>hi.
       bindE (getitem m (index + 1)) (\<lambda>lo. Inr (index + 2, hi * 256 + lo)))"

text \<open>\<^verbatim>\<open>_ExtractValues(m, index, units_extra)\<close>, with its early return of three elements.\<close>

definition ExtractValues :: "int list \<Rightarrow> int \<Rightarrow> int \<Rightarrow> error + (int \<times> pyval list)" where
  "ExtractValues m index units_extra =
     (if index \<ge> int (length m) then Inr (index, [PNone, PNone, PNone])
      else bindE (GetReading m index units_extra) (\<lambda>(index1, unit, val1).
        bindE (if index1 + 1 < int (length m)
               then bindE (GetTimeDelta m index1) (\<lambda>(i, dt). Inr (i, PInt dt))
               else Inr (index1, PNone)) (\<lambda>(index2, dt).
          bindE (if index2 < int (length m)
                 then bindE (GetReading m index2 units_extra) (\<lambda>(i, u, val2). Inr (i, PFloat val2))
                 else Inr (index2, PNone)) (\<lambda>(index3, val2).
            Inr (index3, [PInt unit, PFloat val1, dt, val2])))))"

section \<open>The field parsers\<close>

text \<open>
  Every parser takes the frame and the cursor and returns the new cursor and the decoded
  value; the value \<^verbatim>\<open>None\<close> (\<open>PNone\<close>) tells \<^verbatim>\<open>ParseCommand\<close> that the field is
  malformed. An exception of the source is \<open>Inl\<close>.
\<close>

type_synonym parser = "int list \<Rightarrow> int \<Rightarrow> error + (int \<times> pyval)"

definition ParseMeter :: parser where
  "ParseMeter m index =
     bindE (getitem m index) (\<lambda>b.
       let units_extra = drop_bit 5 (b AND 0x80);
           meter_type = b AND 0x1f
       in bindE (ExtractValues m (index + 1) units_extra) (\<lambda>(index', val).
            Inr (index', PList (PInt meter_type # val))))"

definition ParseByte :: parser where
  "ParseByte m index =
     (if int (length m) \<le> index then Inr (index, PNone)
      else bindE (getitem m index) (\<lambda>b. Inr (index + 1, PInt b)))"

definition ParseWord :: parser where
  "ParseWord m index =
     (if int (length m) \<le> index + 1 then Inr (index, PNone)
      else bindE (getitem m index) (\<lambda>hi.
        bindE (getitem m (index + 1)) (\<lambda>lo. Inr (index + 2, PInt (hi * 256 + lo)))))"

text \<open>
  \<^verbatim>\<open>bytes.decode\<close> for the three codecs of \<^verbatim>\<open>_ENCODING_TO_DECODER\<close>, in strict mode:
  ASCII rejects a byte above 127, Latin-1 maps every byte to its code point, UTF-16
  big-endian reads two bytes per code unit, joins a surrogate pair and rejects a lone
  surrogate or an odd trailing byte.
\<close>

definition ENCODING_TO_DECODER :: "string list" where
  "ENCODING_TO_DECODER = [''ascii'', ''latin1'', ''utf-16-be'']"

definition ascii_decode :: "int list \<Rightarrow> error + pystr" where
  "ascii_decode bs = (if list_all (\<lambda>b. b < 128) bs then Inr (map nat bs) else Inl UnicodeDecodeError)"

definition latin1_decode :: "int list \<Rightarrow> error + pystr" where
  "latin1_decode bs = Inr (map nat bs)"

fun utf16be_decode :: "int list \<Rightarrow> error + pystr" where
  "utf16be_decode [] = Inr []"
| "utf16be_decode [b] = Inl UnicodeDecodeError"
| "utf16be_decode (h # l # rest) =
     (let u = nat (h * 256 + l) in
      if 0xD800 \<le> u \<and> u < 0xDC00 then
        (case rest of
           h2 # l2 # rest2 \<Rightarrow>
             (let u2 = nat (h2 * 256 + l2) in
              if 0xDC00 \<le> u2 \<and> u2 < 0xE000
              then bindE (utf16be_decode rest2) (\<lambda>s.
                     Inr ((0x10000 + (u - 0xD800) * 0x400 + (u2 - 0xDC00)) # s))
              else Inl UnicodeDecodeError)
         | _ \<Rightarrow> Inl UnicodeDecodeError)
      else if 0xDC00 \<le> u \<and> u < 0xE000 then Inl UnicodeDecodeError
      else bindE (utf16be_decode rest) (\<lambda>s. Inr (u # s)))"

definition decode :: "int list \<Rightarrow> string \<Rightarrow> error + pystr" where
  "decode b name =
     (if name = ''ascii'' then ascii_decode b
      else if name = ''latin1'' then latin1_decode b
      else if name = ''utf-16-be'' then utf16be_decode b
      else Inl LookupError)"

definition ParseName :: parser where
  "ParseName m index =
     (if \<not> int (length m) > index then Inl AssertionError
      else bindE (getitem m index) (\<lambda>b0.
        let encoding = b0 AND 3 in
        bindE (py_bytes (slice_from m (index + 1))) (\<lambda>b.
          bindE (getitem ENCODING_TO_DECODER encoding) (\<lambda>name.
            bindE (decode b name) (\<lambda>s. Inr (int (length m), PStr s))))))"

text \<open>
  \<^verbatim>\<open>_ParseStringWithLength\<close> subscripts the frame with the tuple
  \<^verbatim>\<open>(index + 1, size)\<close>, which is a TypeError for a list and for \<^verbatim>\<open>bytes\<close>.
\<close>

definition ParseStringWithLength :: parser where
  "ParseStringWithLength m index =
     bindE (getitem m index) (\<lambda>sz. Inl TypeError)"

definition ParseStringWithLengthAndEncoding :: parser where
  "ParseStringWithLengthAndEncoding m index =
     bindE (getitem m index) (\<lambda>b0.
       let encoding = drop_bit 5 b0;
           sz = b0 AND 0x1f
       in bindE (py_bytes (slice m (index + 1) (index + sz))) (\<lambda>b.
            Inr (1 + sz, PList [PInt encoding, PBytes b])))"

definition ParseListRest :: parser where
  "ParseListRest m index =
     (let sz = int (length m) - index
      in Inr (index + sz, int_list (slice m index (index + sz))))"

text \<open>\<^verbatim>\<open>_ExtractBitVector(data, offset)\<close>: the iteration over the bytes and, inside it, over the eight bits, adding to the set.\<close>

definition ExtractBitVector :: "int list \<Rightarrow> int \<Rightarrow> int set" where
  "ExtractBitVector data offset =
     foldl (\<lambda>bits i.
        let b = data ! i in
        foldl (\<lambda>bits j.
           if b AND push_bit j 1 \<noteq> 0 then insert (int j + int i * 8 + offset) bits else bits)
          bits [0..<8])
       {} [0..<length data]"

definition ParseBitVector :: parser where
  "ParseBitVector m index =
     bindE (getitem m index) (\<lambda>sz.
       Inr (index + 1 + sz, PSet (ExtractBitVector (slice m (index + 1) (index + 1 + sz)) 0)))"

definition ParseBitVectorRest :: parser where
  "ParseBitVectorRest m index =
     (let sz = int (length m) - index
      in Inr (index + sz, PSet (ExtractBitVector (slice_from m index) 0)))"

definition ParseNonce :: parser where
  "ParseNonce m index =
     (let sz = 8
      in if int (length m) < index + sz then Inr (index, PNone)
         else Inr (index + sz, int_list (slice m index (index + sz))))"

definition ParseDataRest :: parser where
  "ParseDataRest m index =
     (let sz = int (length m) - index
      in Inr (index + sz, int_list (slice m index (index + sz))))"

definition GetIntLittleEndian :: "int list \<Rightarrow> int" where
  "GetIntLittleEndian m =
     fst (foldl (\<lambda>(x, shift) i. (x + push_bit shift i, shift + 8)) (0, 0) m)"

definition GetIntBigEndian :: "int list \<Rightarrow> int" where
  "GetIntBigEndian m = foldl (\<lambda>x i. push_bit 8 x + i) 0 m"

definition ParseRestLittleEndianInt :: parser where
  "ParseRestLittleEndianInt m index =
     (let sz = int (length m) - index
      in Inr (index + sz, PInt (GetIntLittleEndian (slice m index (index + sz)))))"

definition ParseSensor :: parser where
  "ParseSensor m index =
     (if int (length m) < index + 2 then Inr (index, PNone)
      else bindE (getitem m index) (\<lambda>c.
        let precision = drop_bit 5 c AND 7;
            scale = drop_bit 3 c AND 3;
            sz = c AND 7
        in if int (length m) < index + 1 + sz then Inr (index, PNone)
           else bindE (GetSignedValue m (index + 1) sz) (\<lambda>v.
             Inr (index + 1 + sz,
                  PList [PInt scale, PFloat (v / 10 ^ nat precision)]))))"

definition ParseValue :: parser where
  "ParseValue m index =
     bindE (getitem m index) (\<lambda>b.
       let sz = b AND 0x7;
           start = index + 1
       in Inr (index + 1 + sz, PList [PInt sz, PInt (GetIntBigEndian (slice m start (start + sz)))]))"

definition ParseDate :: parser where
  "ParseDate m index =
     (if int (length m) < index + 7 then Inr (int (length m), PNone)
      else bindE (getitem m index) (\<lambda>y1.
           bindE (getitem m (index + 1)) (\<lambda>y0.
           bindE (getitem m (index + 2)) (\<lambda>month.
           bindE (getitem m (index + 3)) (\<lambda>day.
           bindE (getitem m (index + 4)) (\<lambda>hour.
           bindE (getitem m (index + 5)) (\<lambda>minute.
           bindE (getitem m (index + 6)) (\<lambda>sec.
             Inr (index + 7,
                  PList [PInt (y1 * 256 + y0), PInt month, PInt day,
                         PInt hour, PInt minute, PInt sec])))))))))"

text \<open>The dictionary \<^verbatim>\<open>_PARSE_ACTIONS\<close>: a tag that is no key has no parser.\<close>

definition PARSE_ACTIONS :: "char \<Rightarrow> parser option" where
  "PARSE_ACTIONS c =
     (if c = CHR ''A'' then Some ParseStringWithLength
      else if c = CHR ''F'' then Some ParseStringWithLengthAndEncoding
      else if c = CHR ''B'' then Some ParseByte
      else if c = CHR ''C'' then Some ParseDate
      else if c = CHR ''N'' then Some ParseName
      else if c = CHR ''L'' then Some ParseListRest
      else if c = CHR ''R'' then Some ParseRestLittleEndianInt
      else if c = CHR ''W'' then Some ParseWord
      else if c = CHR ''V'' then Some ParseValue
      else if c = CHR ''M'' then Some ParseMeter
      else if c = CHR ''O'' then Some ParseNonce
      else if c = CHR ''D'' then Some ParseDataRest
      else if c = CHR ''T'' then Some ParseBitVector
      else if c = CHR ''U'' then Some ParseBitVectorRest
      else if c = CHR ''X'' then Some ParseSensor
      else None)"

section \<open>The frame codec\<close>

text \<open>
  Modelled from the spec: the schema table \<^verbatim>\<open>zwave.SUBCMD_TO_PARSE_TABLE\<close>, which
  belongs to the module \<^verbatim>\<open>zwave\<close> and is not part of \<^verbatim>\<open>command.py\<close>. The
  specification gives it the interface \<^verbatim>\<open>lookup(class, command) -> Option<Schema>\<close>;
  \<^verbatim>\<open>command.py\<close> subscripts it with \<^verbatim>\<open>class * 256 + command\<close> and tests the result
  against \<^verbatim>\<open>None\<close>. The table is a parameter of the codec, and its subscript is
  whatever that module makes it: \<open>Inr (Some ts)\<close> is a schema, the list of its tag
  strings such as \<^verbatim>\<open>"B{level}"\<close>, whose tag is the first character; \<open>Inr None\<close> is
  the answer \<^verbatim>\<open>None\<close> for a key with no schema; \<open>Inl e\<close> is a subscript that raises.
\<close>

type_synonym schema_table = "int \<Rightarrow> error + string list option"

definition GetParameterDescriptors :: "schema_table \<Rightarrow> int list \<Rightarrow> error + string list option" where
  "GetParameterDescriptors table m =
     (if length m < 2 then Inr None else table (m ! 0 * 256 + m ! 1))"

text \<open>
  \<^verbatim>\<open>ParseCommand(m)\<close> returns the list of decoded fields, the empty list for an
  unknown command, or \<^verbatim>\<open>None\<close> for a malformed field.
\<close>

fun ParseCommand_loop :: "int list \<Rightarrow> int \<Rightarrow> string list \<Rightarrow> pyval list \<Rightarrow> error + pyval list option" where
  "ParseCommand_loop m index [] out = Inr (Some out)"
| "ParseCommand_loop m index (t # ts) out =
     bindE (getitem t 0) (\<lambda>c.
       case PARSE_ACTIONS c of
         None \<Rightarrow> Inl KeyError
       | Some p \<Rightarrow>
           bindE (p m index) (\<lambda>(new_index, v).
             if v = PNone then Inr None
             else ParseCommand_loop m new_index ts (out @ [v])))"

definition ParseCommand :: "schema_table \<Rightarrow> int list \<Rightarrow> error + pyval list option" where
  "ParseCommand table m =
     bindE (GetParameterDescriptors table m) (\<lambda>tbl.
       case tbl of
         None \<Rightarrow> Inr (Some [])
       | Some ts \<Rightarrow> ParseCommand_loop m 2 ts [])"

subsection \<open>Operations on Python values\<close>

fun py_len :: "pyval \<Rightarrow> error + int" where
  "py_len (PStr s) = Inr (int (length s))"
| "py_len (PBytes bs) = Inr (int (length bs))"
| "py_len (PList xs) = Inr (int (length xs))"
| "py_len (PSet S) = Inr (int (card S))"
| "py_len _ = Inl TypeError"

text \<open>\<^verbatim>\<open>x[i]\<close>: lists, strings and \<^verbatim>\<open>bytes\<close> take an integer index; nothing else does.\<close>

fun py_subscript :: "pyval \<Rightarrow> pyval \<Rightarrow> error + pyval" where
  "py_subscript (PList xs) (PInt i) = getitem xs i"
| "py_subscript (PStr s) (PInt i) = bindE (getitem s i) (\<lambda>c. Inr (PStr [c]))"
| "py_subscript (PBytes bs) (PInt i) = bindE (getitem bs i) (\<lambda>b. Inr (PInt b))"
| "py_subscript _ _ = Inl TypeError"

text \<open>\<^verbatim>\<open>x[1:]\<close>\<close>

fun py_tail :: "pyval \<Rightarrow> error + pyval" where
  "py_tail (PList xs) = Inr (PList (slice_from xs 1))"
| "py_tail (PStr s) = Inr (PStr (slice_from s 1))"
| "py_tail (PBytes bs) = Inr (PBytes (slice_from bs 1))"
| "py_tail _ = Inl TypeError"

text \<open>
  A frame under assembly holds integers only. Where the source would put another
  object into \<^verbatim>\<open>data\<close> (Python lets it, and fails when the frame is used as bytes), the
  model raises TypeError at once. Iteration over a set of integers is taken in
  ascending order.
\<close>

fun as_int :: "pyval \<Rightarrow> error + int" where
  "as_int (PInt n) = Inr n"
| "as_int _ = Inl TypeError"

fun all_ints :: "pyval list \<Rightarrow> error + int list" where
  "all_ints [] = Inr []"
| "all_ints (x # xs) = bindE (as_int x) (\<lambda>n. bindE (all_ints xs) (\<lambda>ns. Inr (n # ns)))"

text \<open>The elements that \<^verbatim>\<open>data += v\<close> appends.\<close>

fun extend_ints :: "pyval \<Rightarrow> error + int list" where
  "extend_ints (PList xs) = all_ints xs"
| "extend_ints (PBytes bs) = Inr bs"
| "extend_ints (PSet S) = Inr (sorted_list_of_set S)"
| "extend_ints (PStr s) = (if s = [] then Inr [] else Inl TypeError)"
| "extend_ints _ = Inl TypeError"

subsection \<open>Assembling a frame\<close>

text \<open>\<^verbatim>\<open>_MakeValue(conf, value)\<close>, with its \<^verbatim>\<open>while shift >= 0\<close> loop.\<close>

function MakeValue_loop :: "int \<Rightarrow> int \<Rightarrow> int list \<Rightarrow> int list" where
  "MakeValue_loop v shift data =
     (if shift \<ge> 0
      then MakeValue_loop v (shift - 8) (data @ [0xff AND drop_bit (nat shift) v])
      else data)"
  by pat_completeness auto
termination
  by (relation "measure (\<lambda>(v, shift, data). nat (shift + 8))") auto

declare MakeValue_loop.simps [simp del]

definition MakeValue :: "pyval \<Rightarrow> pyval \<Rightarrow> error + int list" where
  "MakeValue conf v =
     bindE (as_int conf) (\<lambda>c.
       let sz = c AND 7 in
       if \<not> (sz = 1 \<or> sz = 2 \<or> sz = 4) then Inl AssertionError
       else bindE (as_int v) (\<lambda>n. Inr (MakeValue_loop n ((sz - 1) * 8) [c])))"

definition MakeDate :: "pyval \<Rightarrow> error + int list" where
  "MakeDate date =
     bindE (bindE (py_subscript date (PInt 0)) as_int) (\<lambda>year.
     bindE (bindE (py_subscript date (PInt 1)) as_int) (\<lambda>d1.
     bindE (bindE (py_subscript date (PInt 2)) as_int) (\<lambda>d2.
     bindE (bindE (py_subscript date (PInt 3)) as_int) (\<lambda>d3.
     bindE (bindE (py_subscript date (PInt 4)) as_int) (\<lambda>d4.
     bindE (bindE (py_subscript date (PInt 5)) as_int) (\<lambda>d5.
       Inr [year div 256, year mod 256, d1, d2, d3, d4, d5]))))))"

text \<open>What one iteration of the loop of \<^verbatim>\<open>AssembleCommand\<close> appends for tag \<open>c\<close> and argument \<open>v\<close>.\<close>

definition Assemble_field :: "char \<Rightarrow> pyval \<Rightarrow> error + int list" where
  "Assemble_field c v =
     (if c = CHR ''B'' then bindE (as_int v) (\<lambda>n. Inr [n])
      else if c = CHR ''Y'' then
        (if v \<noteq> PNone then bindE (as_int v) (\<lambda>n. Inr [n]) else Inr [])
      else if c = CHR ''N'' then Inr [1]
      else if c = CHR ''K'' then
        bindE (py_len v) (\<lambda>n. if n \<noteq> 16 then Inl AssertionError else extend_ints v)
      else if c = CHR ''D'' then extend_ints v
      else if c = CHR ''S'' then Inl AssertionError
      else if c = CHR ''L'' then extend_ints v
      else if c = CHR ''C'' then MakeDate v
      else if c = CHR ''O'' then bindE (py_len v) (\<lambda>n. extend_ints v)
      else if c = CHR ''V'' then
        bindE (py_subscript v (PInt 0)) (\<lambda>conf.
          bindE (py_subscript v (PInt 1)) (\<lambda>x. MakeValue conf x))
      else Inl AssertionError)"

text \<open>
  The loop \<^verbatim>\<open>for i in range(len(table))\<close>: entry \<open>t = table[i]\<close> is the head of the
  entries still to do, and \<^verbatim>\<open>v = raw_cmd[i + 2]\<close> is read before the tag is looked at.
\<close>

fun AssembleCommand_loop :: "string list \<Rightarrow> nat \<Rightarrow> pyval list \<Rightarrow> int list \<Rightarrow> error + int list" where
  "AssembleCommand_loop [] i raw_cmd data = Inr data"
| "AssembleCommand_loop (t # ts) i raw_cmd data =
     bindE (getitem raw_cmd (int i + 2)) (\<lambda>v.
       bindE (getitem t 0) (\<lambda>c.
         bindE (Assemble_field c v) (\<lambda>bs.
           AssembleCommand_loop ts (i + 1) raw_cmd (data @ bs))))"

definition AssembleCommand :: "schema_table \<Rightarrow> pyval list \<Rightarrow> error + int list" where
  "AssembleCommand table raw_cmd =
     bindE (bindE (getitem raw_cmd 0) as_int) (\<lambda>cls.
       bindE (bindE (getitem raw_cmd 1) as_int) (\<lambda>cmd.
         bindE (table (cls * 256 + cmd)) (\<lambda>tbl.
           case tbl of
             None \<Rightarrow> Inl AssertionError
           | Some ts \<Rightarrow> AssembleCommand_loop ts 0 raw_cmd [cls, cmd])))"

section \<open>Resolving a decoded frame to a value\<close>

definition UNIT_NONE :: pyval where "UNIT_NONE = lit []"
definition SENSOR_KIND_INVALID :: pyval where "SENSOR_KIND_INVALID = lit ''@invalid@''"
definition SENSOR_KIND_ELECTRIC :: pyval where "SENSOR_KIND_ELECTRIC = lit ''Electric''"
definition SENSOR_KIND_GAS :: pyval where "SENSOR_KIND_GAS = lit ''Gas''"
definition SENSOR_KIND_WATER :: pyval where "SENSOR_KIND_WATER = lit ''Water''"
definition SENSOR_KIND_TEMPERTATURE :: pyval where "SENSOR_KIND_TEMPERTATURE = lit ''Temperature''"
definition SENSOR_KIND_RELATIVE_HUMIDITY :: pyval where
  "SENSOR_KIND_RELATIVE_HUMIDITY = lit ''Relative Humidity''"

definition VALUE_TYPE_LIST :: pyval where "VALUE_TYPE_LIST = lit ''ItemList''"
definition VALUE_TYPE_SCALAR :: pyval where "VALUE_TYPE_SCALAR = lit ''ItemScalar''"
definition VALUE_TYPE_CONST :: pyval where "VALUE_TYPE_CONST = lit ''ItemConst''"
definition VALUE_TYPE_MAP_LIST :: pyval where "VALUE_TYPE_MAP_LIST = lit ''ItemMapList''"
definition VALUE_TYPE_MAP_SCALAR :: pyval where "VALUE_TYPE_MAP_SCALAR = lit ''ItemMapScalar''"
definition VALUE_TYPE_SENSOR_NORMAL :: pyval where "VALUE_TYPE_SENSOR_NORMAL = lit ''ItemSensorNormal''"
definition VALUE_TYPE_SENSOR_VALUE :: pyval where "VALUE_TYPE_SENSOR_VALUE = lit ''ItemSensorValue''"
definition VALUE_TYPE_METER_NORMAL :: pyval where "VALUE_TYPE_METER_NORMAL = lit ''ItemMeterNormal''"

text \<open>A row of a unit table: the kind and its units by scale.\<close>

definition row :: "pyval \<Rightarrow> pyval list \<Rightarrow> pyval" where
  "row k units = PList [k, PList units]"

definition METER_TYPES :: pyval where
  "METER_TYPES = PList [
     row SENSOR_KIND_INVALID [PNone, PNone, PNone, PNone, PNone, PNone, PNone, PNone],
     row SENSOR_KIND_ELECTRIC [lit ''kWh'', lit ''kVAh'', lit ''W'', lit ''Pulses'',
                               lit ''V'', lit ''A'', lit ''Power-Factor'', PNone],
     row SENSOR_KIND_GAS [lit ''m^3'', lit ''ft^3'', PNone, lit ''Pulses'', PNone, PNone, PNone, PNone],
     row SENSOR_KIND_WATER [lit ''m^3'', lit ''ft^3'', PNone, lit ''Pulses'', PNone, PNone, PNone, PNone]]"

definition SENSOR_TYPES :: pyval where
  "SENSOR_TYPES = PList [
     row SENSOR_KIND_INVALID [PNone, PNone, PNone, PNone],
     row SENSOR_KIND_TEMPERTATURE [lit ''C'', lit ''F'', PNone, PNone],
     row (lit ''General'') [lit ''%'', PNone, PNone, PNone],
     row (lit ''Luminance'') [lit ''%'', lit ''lux'', PNone, PNone],
     row (lit ''Power'') [lit ''W'', lit ''BTU/h'', PNone, PNone],
     row SENSOR_KIND_RELATIVE_HUMIDITY [lit ''%'', PNone, PNone, PNone],
     row (lit ''Velocity'') [lit ''m/s'', lit ''mph'', PNone, PNone],
     row (lit ''Direction'') [lit [], lit [], PNone, PNone],
     row (lit ''Atmospheric Pressure'') [lit ''kPa'', lit ''inHg'', PNone, PNone],
     row (lit ''Barometric Pressure'') [lit ''kPa'', lit ''inHg'', PNone, PNone],
     row (lit ''Solar Radiation'') [lit ''W/m2'', PNone, PNone, PNone],
     row (lit ''Dew Point'') [lit ''C'', lit ''F'', PNone, PNone],
     row (lit ''Rain Rate'') [lit ''mm/h'', lit ''in/h'', PNone, PNone],
     row (lit ''Tide Level'') [lit ''m'', lit ''ft'', PNone, PNone],
     row (lit ''Weight'') [lit ''kg'', lit ''lb'', PNone, PNone],
     row (lit ''Voltage'') [lit ''kg'', lit ''lb'', PNone, PNone],
     row (lit ''Current'') [lit ''A'', lit ''mA'', PNone, PNone],
     row (lit ''CO2 Level'') [lit ''ppm'', PNone, PNone, PNone],
     row (lit ''Air Flow'') [lit ''m3/h'', lit ''cfm'', PNone, PNone],
     row (lit ''Tank Capacity'') [lit ''l'', lit ''cbm'', lit ''gal'', PNone],
     row (lit ''Distance'') [lit ''m'', lit ''cm'', lit ''ft'', PNone],
     row (lit ''Angle Position'') [lit ''%'', lit ''deg N'', lit ''deg S'', PNone],
     row (lit ''Rotation'') [lit ''rpm'', lit ''Hz'', PNone, PNone],
     row (lit ''Water Temperature'') [lit ''C'', lit ''F'', PNone, PNone],
     row (lit ''Soil Temperature'') [lit ''C'', lit ''F'', PNone, PNone],
     row (lit ''Seismic Intensity'') [lit ''mercalli'', lit ''EU macroseismic'', lit ''liedu'', lit ''shindo''],
     row (lit ''Seismic Magnitude'') [lit ''local'', lit ''moment'', lit ''surface wave'', lit ''body wave''],
     row (lit ''Utraviolet'') [lit [], lit [], PNone, PNone],
     row (lit ''Electrical Resistivity'') [lit ''ohm'', PNone, PNone, PNone],
     row (lit ''Electrical Conductivity'') [lit ''siemens/m'', PNone, PNone, PNone],
     row (lit ''Loudness'') [lit ''db'', lit ''dbA'', PNone, PNone],
     row (lit ''Moisture'') [lit ''%'', lit ''content'', lit ''k ohms'', lit ''water activity'']]"

text \<open>The class \<^verbatim>\<open>Value\<close> and its constructor, with the defaults of the two meter fields.\<close>

record Value =
  kind :: pyval
  unit :: pyval
  "value" :: pyval
  meter_prev :: pyval
  meter_time_delta :: pyval

definition mkValue :: "pyval \<Rightarrow> pyval \<Rightarrow> pyval \<Rightarrow> Value" where
  "mkValue k u v =
     \<lparr>kind = k, unit = u, value = v, meter_prev = PFloat 0, meter_time_delta = PInt 0\<rparr>"

definition mkMeterValue :: "pyval \<Rightarrow> pyval \<Rightarrow> pyval \<Rightarrow> pyval \<Rightarrow> pyval \<Rightarrow> Value" where
  "mkMeterValue k u v time_delta prev =
     \<lparr>kind = k, unit = u, value = v, meter_prev = prev, meter_time_delta = time_delta\<rparr>"

text \<open>\<^verbatim>\<open>assert\<close>\<close>

definition py_assert :: "bool \<Rightarrow> error + unit" where
  "py_assert b = (if b then Inr () else Inl AssertionError)"

fun is_list :: "pyval \<Rightarrow> bool" where
  "is_list (PList xs) = True"
| "is_list _ = False"

text \<open>
  \<^verbatim>\<open>scale, reading = x\<close> where \<^verbatim>\<open>len(x) == 2\<close> has been asserted. Iteration over a set
  of integers is taken in ascending order.
\<close>

definition pair_of :: "pyval list \<Rightarrow> error + (pyval \<times> pyval)" where
  "pair_of xs = (case xs of [a, b] \<Rightarrow> Inr (a, b) | _ \<Rightarrow> Inl ValueError)"

fun unpack2 :: "pyval \<Rightarrow> error + (pyval \<times> pyval)" where
  "unpack2 (PList xs) = pair_of xs"
| "unpack2 (PStr s) = pair_of (map (\<lambda>c. PStr [c]) s)"
| "unpack2 (PBytes bs) = pair_of (map PInt bs)"
| "unpack2 (PSet S) = pair_of (map PInt (sorted_list_of_set S))"
| "unpack2 _ = Inl TypeError"

text \<open>
  \<^verbatim>\<open>GetValue(action, value)\<close>. The list \<open>action\<close> is popped in place, so the function
  returns, beside its result or exception, the list as the caller finds it afterwards.
  The branches that pop nothing more are the functions \<open>resolve_*\<close> of the decoded field list \<open>vals\<close>.
\<close>

definition pop0 :: "pyval list \<Rightarrow> (error + pyval) \<times> pyval list" where
  "pop0 action = (case action of [] \<Rightarrow> (Inl IndexError, []) | x # xs \<Rightarrow> (Inr x, xs))"

definition resolve_sensor_normal :: "pyval \<Rightarrow> error + Value" where
  "resolve_sensor_normal vals =
     bindE (py_len vals) (\<lambda>n.
     bindE (py_assert (n = 2)) (\<lambda>_.
     bindE (py_subscript vals (PInt 0)) (\<lambda>k.
     bindE (py_subscript SENSOR_TYPES k) (\<lambda>info.
     bindE (py_subscript vals (PInt 1)) (\<lambda>pair.
     bindE (py_len pair) (\<lambda>n1.
     bindE (py_assert (n1 = 2)) (\<lambda>_.
     bindE (unpack2 pair) (\<lambda>(scale, reading).
     bindE (py_subscript info (PInt 1)) (\<lambda>units.
     bindE (py_subscript units scale) (\<lambda>u.
     bindE (py_assert (u \<noteq> PNone)) (\<lambda>_.
     bindE (py_subscript info (PInt 0)) (\<lambda>name.
       Inr (mkValue name u reading)))))))))))))"

definition resolve_meter_normal :: "pyval \<Rightarrow> error + Value" where
  "resolve_meter_normal vals =
     bindE (py_len vals) (\<lambda>n.
     bindE (py_assert (n = 1)) (\<lambda>_.
     bindE (py_subscript vals (PInt 0)) (\<lambda>v.
     bindE (py_len v) (\<lambda>n1.
     bindE (py_assert (n1 = 5)) (\<lambda>_.
     bindE (py_subscript v (PInt 0)) (\<lambda>k.
     bindE (py_subscript v (PInt 1)) (\<lambda>scale.
     bindE (py_subscript METER_TYPES k) (\<lambda>info.
     bindE (py_subscript info (PInt 1)) (\<lambda>units.
     bindE (py_subscript units scale) (\<lambda>u.
     bindE (py_assert (u \<noteq> PNone)) (\<lambda>_.
     bindE (py_subscript info (PInt 0)) (\<lambda>name.
     bindE (py_subscript v (PInt 2)) (\<lambda>v2.
     bindE (py_subscript v (PInt 3)) (\<lambda>v3.
     bindE (py_subscript v (PInt 4)) (\<lambda>v4.
       Inr (mkMeterValue name u v2 v3 v4))))))))))))))))"

definition resolve_scalar_checks :: "pyval \<Rightarrow> error + unit" where
  "resolve_scalar_checks vals =
     bindE (py_len vals) (\<lambda>n.
     bindE (py_assert (n = 1)) (\<lambda>_.
     bindE (py_subscript vals (PInt 0)) (\<lambda>v0.
       py_assert (\<not> is_list v0))))"

definition GetValue :: "pyval list \<Rightarrow> pyval \<Rightarrow> (error + Value) \<times> pyval list" where
  "GetValue action vals =
     (case pop0 action of
        (Inl e, a1) \<Rightarrow> (Inl e, a1)
      | (Inr t, a1) \<Rightarrow>
          if t = VALUE_TYPE_SCALAR then
            (case resolve_scalar_checks vals of
               Inl e \<Rightarrow> (Inl e, a1)
             | Inr _ \<Rightarrow>
                 (case pop0 a1 of
                    (Inl e, a2) \<Rightarrow> (Inl e, a2)
                  | (Inr k, a2) \<Rightarrow>
                      (bindE (py_subscript vals (PInt 0)) (\<lambda>v0. Inr (mkValue k UNIT_NONE v0)), a2)))
          else if t = VALUE_TYPE_LIST then
            (case py_assert (is_list vals) of
               Inl e \<Rightarrow> (Inl e, a1)
             | Inr _ \<Rightarrow>
                 (case pop0 a1 of
                    (Inl e, a2) \<Rightarrow> (Inl e, a2)
                  | (Inr k, a2) \<Rightarrow> (Inr (mkValue k UNIT_NONE vals), a2)))
          else if t = VALUE_TYPE_CONST then
            (case pop0 a1 of
               (Inl e, a2) \<Rightarrow> (Inl e, a2)
             | (Inr k, a2) \<Rightarrow>
                 (case pop0 a2 of
                    (Inl e, a3) \<Rightarrow> (Inl e, a3)
                  | (Inr v, a3) \<Rightarrow> (Inr (mkValue k UNIT_NONE v), a3)))
          else if t = VALUE_TYPE_SENSOR_VALUE then
            (case pop0 a1 of
               (Inl e, a2) \<Rightarrow> (Inl e, a2)
             | (Inr k, a2) \<Rightarrow>
                 (case pop0 a2 of
                    (Inl e, a3) \<Rightarrow> (Inl e, a3)
                  | (Inr u, a3) \<Rightarrow>
                      (bindE (py_len vals) (\<lambda>n.
                       bindE (py_assert (n = 1)) (\<lambda>_.
                       bindE (py_subscript vals (PInt 0)) (\<lambda>v0.
                         Inr (mkValue k u v0)))), a3)))
          else if t = VALUE_TYPE_SENSOR_NORMAL then (resolve_sensor_normal vals, a1)
          else if t = VALUE_TYPE_MAP_LIST then
            (case pop0 a1 of
               (Inl e, a2) \<Rightarrow> (Inl e, a2)
             | (Inr k, a2) \<Rightarrow>
                 (bindE (py_subscript vals (PInt 0)) (\<lambda>v0.
                  bindE (getitem a2 2) (\<lambda>u.
                  bindE (py_tail vals) (\<lambda>rest.
                    Inr (mkValue v0 u rest)))), a2))
          else if t = VALUE_TYPE_MAP_SCALAR then
            (bindE (py_subscript vals (PInt 0)) (\<lambda>v0.
             bindE (getitem a1 2) (\<lambda>u.
             bindE (py_subscript vals (PInt 1)) (\<lambda>v1.
               Inr (mkValue v0 u v1)))), a1)
          else if t = VALUE_TYPE_METER_NORMAL then (resolve_meter_normal vals, a1)
          else (Inl AssertionError, a1))"

section \<open>Calling the resolver twice, sample table, argument shapes\<close>

text \<open>
  Two calls of \<^verbatim>\<open>GetValue\<close> in a row with the same list object \<open>action\<close> and the same
  field list: the second call finds the list as the first one left it.
\<close>

definition GetValue_twice :: "pyval list \<Rightarrow> pyval \<Rightarrow> (error + Value) \<times> (error + Value)" where
  "GetValue_twice action vals =
     (case GetValue action vals of
        (r1, a1) \<Rightarrow> (case GetValue a1 vals of (r2, a2) \<Rightarrow> (r1, r2)))"

text \<open>
  The action list as an object: a store maps the address of a list object to its
  contents. \<^verbatim>\<open>GetValue\<close> called on the list object at address \<open>a\<close> pops that object
  and touches no other.
\<close>

type_synonym store = "nat \<Rightarrow> pyval list"

definition GetValue_at :: "store \<Rightarrow> nat \<Rightarrow> pyval \<Rightarrow> (error + Value) \<times> store" where
  "GetValue_at h a vals = (case GetValue (h a) vals of (r, rest) \<Rightarrow> (r, h(a := rest)))"


text \<open>
  Two schema tables with one registered schema, that of the wake-up notification, which
  has no fields. For a key without schema the first answers \<^verbatim>\<open>None\<close>; the second is a
  dictionary, whose subscript raises KeyError.
\<close>

definition wakeup_table :: schema_table where
  "wakeup_table key = (if key = 0x8407 then Inr (Some []) else Inr None)"

definition wakeup_dict :: schema_table where
  "wakeup_dict key = (if key = 0x8407 then Inr (Some []) else Inl KeyError)"

text \<open>
  A schema table for the examples: a byte field, a network key (tag \<^verbatim>\<open>'K'\<close>, which
  \<^verbatim>\<open>AssembleCommand\<close> encodes), a node name (tag \<^verbatim>\<open>'N'\<close>), and a schema of a sized
  value, a byte, a date, a nonce and a trailing list.
\<close>

definition example_table :: schema_table where
  "example_table key =
     (if key = 0x2001 then Inr (Some [''B{level}''])
      else if key = 0x9806 then Inr (Some [''K{key}''])
      else if key = 0x7701 then Inr (Some [''N{name}''])
      else if key = 0x0102 then
        Inr (Some [''V{value}'', ''B{b}'', ''C{date}'', ''O{nonce}'', ''L{rest}''])
      else Inr None)"

text \<open>
  The argument shapes under which a frame survives the round trip. The tags are those
  that both \<^verbatim>\<open>AssembleCommand\<close> and \<^verbatim>\<open>_PARSE_ACTIONS\<close> know and treat alike: an integer
  for \<^verbatim>\<open>'B'\<close>; a list of six integers for \<^verbatim>\<open>'C'\<close>; a list of eight integers for
  \<^verbatim>\<open>'O'\<close>; for \<^verbatim>\<open>'V'\<close> a pair of a size 1, 2 or 4 and an unsigned value of that many
  bytes; a list of integers for \<^verbatim>\<open>'L'\<close> and \<^verbatim>\<open>'D'\<close>, which consume the rest of the
  frame and so must come last.
\<close>

fun is_int :: "pyval \<Rightarrow> bool" where
  "is_int (PInt n) = True"
| "is_int _ = False"

fun is_int_list :: "pyval \<Rightarrow> bool" where
  "is_int_list (PList xs) = list_all is_int xs"
| "is_int_list _ = False"

fun is_sized_value :: "pyval \<Rightarrow> bool" where
  "is_sized_value (PList [PInt sz, PInt x]) =
     ((sz = 1 \<or> sz = 2 \<or> sz = 4) \<and> 0 \<le> x \<and> x < 2 ^ (8 * nat sz))"
| "is_sized_value _ = False"

definition arg_shape :: "char \<Rightarrow> pyval \<Rightarrow> bool" where
  "arg_shape c v =
     (if c = CHR ''B'' then is_int v
      else if c = CHR ''C'' then is_int_list v \<and> py_len v = Inr 6
      else if c = CHR ''O'' then is_int_list v \<and> py_len v = Inr 8
      else if c = CHR ''V'' then is_sized_value v
      else if c = CHR ''L'' \<or> c = CHR ''D'' then is_int_list v
      else False)"

fun args_shape :: "string list \<Rightarrow> pyval list \<Rightarrow> bool" where
  "args_shape [] [] = True"
| "args_shape (t # ts) (v # vs) =
     (case t of
        [] \<Rightarrow> False
      | c # _ \<Rightarrow>
          arg_shape c v \<and>
          (if c = CHR ''L'' \<or> c = CHR ''D'' then ts = [] \<and> vs = [] else args_shape ts vs))"
| "args_shape _ _ = False"

section \<open>Evaluation\<close>

text \<open>The unfolding rules that evaluate the parsers and the resolver on a concrete frame.\<close>

lemmas py_simps =
  bindE_def getitem_def slice_def slice_from_def clip_def int_list_def py_bytes_def
  py_assert_def pair_of_def pop0_def lit_def Let_def

lemmas VALUE_TYPE_defs =
  VALUE_TYPE_LIST_def VALUE_TYPE_SCALAR_def VALUE_TYPE_CONST_def VALUE_TYPE_MAP_LIST_def
  VALUE_TYPE_MAP_SCALAR_def VALUE_TYPE_SENSOR_NORMAL_def VALUE_TYPE_SENSOR_VALUE_def
  VALUE_TYPE_METER_NORMAL_def

section \<open>Reading a frame behind a prefix\<close>

lemma getitem_at: "getitem (pre @ x # post) (int (length pre)) = Inr x"
  by (simp add: getitem_def)

lemma getitem_at_offset:
  "0 \<le> k \<Longrightarrow> nat k < length xs \<Longrightarrow>
     getitem (pre @ xs @ post) (int (length pre) + k) = Inr (xs ! nat k)"
  by (auto simp add: getitem_def Let_def nth_append nat_add_distrib)

lemma getitem_mem: "getitem m i = Inr b \<Longrightarrow> b \<in> set m"
  by (auto simp: getitem_def Let_def split: if_splits)

section \<open>Signed-magnitude decoding\<close>

text \<open>
  On a frame of bytes, a field of at least one byte whose first byte has the top bit set
  never decodes to a negative number: every \<^verbatim>\<open>~m[index + i]\<close> is negative, so the
  accumulated value is negative and the returned \<^verbatim>\<open>- float(value + 1)\<close> is not.
\<close>

lemma GetSignedValue_loop_negative:
  assumes "\<forall>b \<in> set m. 0 \<le> b" and "v \<le> 0" and "ks \<noteq> []"
    and "GetSignedValue_loop m index True ks v = Inr r"
  shows "r < 0"
  using assms
proof (induction ks arbitrary: v)
  case Nil
  then show ?case by simp
next
  case (Cons k ks)
  from Cons.prems(4) obtain b where b: "getitem m (index + int k) = Inr b"
    and r: "GetSignedValue_loop m index True ks (push_bit 8 v + NOT b) = Inr r"
    by (auto simp: bindE_def split: sum.splits)
  have "0 \<le> b" using getitem_mem[OF b] Cons.prems(1) by blast
  then have neg: "push_bit 8 v + NOT b < 0"
    using Cons.prems(2) by (simp add: push_bit_eq_mult not_int_def)
  show ?case
  proof (cases ks)
    case Nil
    then show ?thesis using r neg by simp
  next
    case (Cons k' ks')
    then show ?thesis using Cons.IH[OF Cons.prems(1) _ _ r] neg by simp
  qed
qed

lemma GetSignedValue_top_bit_not_negative:
  assumes "\<forall>b \<in> set m. 0 \<le> b" and "1 \<le> sz"
    and "getitem m index = Inr b0" and "b0 AND 0x80 \<noteq> 0"
    and "GetSignedValue m index sz = Inr r"
  shows "0 \<le> r"
proof -
  from assms(3,4,5) obtain v where v: "GetSignedValue_loop m index True [0..<nat sz] 0 = Inr v"
    and r: "r = - real_of_int (v + 1)"
    by (auto simp: GetSignedValue_def bindE_def Let_def split: sum.splits)
  have "[0..<nat sz] \<noteq> []" using assms(2) by simp
  from GetSignedValue_loop_negative[OF assms(1) _ this v] have "v < 0" by simp
  then show ?thesis using r by simp
qed

text \<open>
  C2. The claim expects two's complement: byte \<open>0x80\<close> as \<open>-128.0\<close> and bytes
  \<open>[0xFF, 0xFF]\<close> as \<open>-1.0\<close>. The code complements with \<^verbatim>\<open>~\<close> on unbounded integers,
  so a field whose top bit is set comes out positive: \<open>0x80\<close> decodes to \<open>128.0\<close> and
  \<open>[0xFF, 0xFF]\<close> to \<open>65791.0\<close>. Only the non-negative case, \<open>0x7F\<close> to \<open>127.0\<close>,
  is as claimed.
\<close>

theorem GetSignedValue_top_bit_set:
  "GetSignedValue [0x80] 0 1 = Inr 128
   \<and> GetSignedValue [0xFF, 0xFF] 0 2 = Inr 65791
   \<and> GetSignedValue [0x7F] 0 1 = Inr 127"
  by (simp add: GetSignedValue_def py_simps eval_nat_numeral)

section \<open>Scaled sensor reading\<close>

text \<open>The three bytes of the example, decoded at the start of a buffer.\<close>

lemma ParseSensor_scaled_reading_at_0:
  "ParseSensor [0x22, 0x00, 0x64] 0 = Inr (3, PList [PInt 0, PFloat 10])"
  by (simp add: ParseSensor_def GetSignedValue_def py_simps eval_nat_numeral)

text \<open>
  C7. The header byte \<open>0b00100010\<close> (precision 1, scale 0, size 2) followed by the
  magnitude bytes \<open>0x00, 0x64\<close> decodes to the pair of scale code 0 and reading
  \<open>100 / 10^1 = 10.0\<close>, and the cursor moves past the three bytes, wherever in a
  frame the three bytes stand.
\<close>

theorem ParseSensor_scaled_reading:
  "ParseSensor (pre @ [0x22, 0x00, 0x64] @ post) (int (length pre))
     = Inr (int (length pre) + 3, PList [PInt 0, PFloat 10])"
proof -
  let ?m = "pre @ [0x22, 0x00, 0x64] @ post"
  let ?i = "int (length pre)"
  have g0: "getitem ?m ?i = Inr 0x22"
    using getitem_at[of pre "0x22" "[0x00, 0x64] @ post"] by simp
  have g1: "getitem ?m (?i + 1) = Inr 0x00"
    using getitem_at_offset[of 1 "[0x22, 0x00, 0x64]" pre post] by simp
  have g2: "getitem ?m (?i + 2) = Inr 0x64"
    using getitem_at_offset[of 2 "[0x22, 0x00, 0x64]" pre post] by simp
  have loop: "GetSignedValue_loop ?m (?i + 1) False [0..<2] 0 = Inr 100"
    using g1 g2 by (simp add: eval_nat_numeral bindE_def add.commute)
  have sv: "GetSignedValue ?m (?i + 1) 2 = Inr 100"
    unfolding GetSignedValue_def using g1 loop by (simp add: bindE_def)
  have "(0x22::int) AND 7 = 2" "drop_bit 5 (0x22::int) AND 7 = 1" "drop_bit 3 (0x22::int) AND 3 = 0"
    by simp_all
  then show ?thesis
    unfolding ParseSensor_def using g0 sv by (simp add: bindE_def)
qed

section \<open>Truncated input\<close>

text \<open>
  C3. The claim wants every parser of \<^verbatim>\<open>_PARSE_ACTIONS\<close> to answer a buffer that is too
  short with a \<^verbatim>\<open>None\<close> value and without reading out of range, as \<^verbatim>\<open>_ParseByte\<close>,
  \<^verbatim>\<open>_ParseWord\<close>, \<^verbatim>\<open>_ParseNonce\<close>, \<^verbatim>\<open>_ParseDate\<close> and \<^verbatim>\<open>_ParseSensor\<close> do. The meter
  parser has no length check: on a frame that ends after the two header bytes, and on one
  that ends inside the first reading, it reads past the end and raises IndexError. The
  bit-vector parser, told of five bytes where one is left, returns a value built from
  that one byte and a cursor past the end of the frame.
\<close>

theorem truncated_frame_not_reported:
  "ParseMeter [0x32, 0x02] 2 = Inl IndexError
   \<and> ParseMeter [0x32, 0x02, 0x01, 0x22] 2 = Inl IndexError
   \<and> ParseBitVector [0x05, 0x01] 0 = Inr (6, PSet {0})"
  by (simp add: ParseMeter_def ExtractValues_def GetReading_def GetSignedValue_def
      ParseBitVector_def ExtractBitVector_def py_simps eval_nat_numeral)

section \<open>Shape of a decoded meter field\<close>

text \<open>
  When at least one byte follows the meter header byte, a successful meter parse returns
  five elements.
\<close>

lemma ParseMeter_five:
  assumes "ParseMeter m index = Inr (i, v)" and "0 \<le> index" and "index + 1 < int (length m)"
  shows "\<exists>a b c d e. v = PList [a, b, c, d, e]"
  using assms
  by (auto simp: ParseMeter_def ExtractValues_def bindE_def Let_def
      split: sum.splits if_splits prod.splits)

text \<open>
  C9. The claim wants five elements from every successful meter parse. When the frame
  ends right after the meter header byte, \<^verbatim>\<open>_ExtractValues\<close> returns early with three
  placeholders instead of four, so the parse succeeds with the four elements
  \<^verbatim>\<open>[meter_type, None, None, None]\<close>, on which the meter branch of \<^verbatim>\<open>GetValue\<close>
  fails its assertion \<^verbatim>\<open>len(val) == 5\<close>.
\<close>

theorem ParseMeter_header_only_four_elements:
  "ParseMeter [0x01] 0 = Inr (1, PList [PInt 1, PNone, PNone, PNone])
   \<and> GetValue [VALUE_TYPE_METER_NORMAL] (PList [PList [PInt 1, PNone, PNone, PNone]])
       = (Inl AssertionError, [])"
  by (simp add: ParseMeter_def ExtractValues_def GetValue_def resolve_meter_normal_def
      VALUE_TYPE_defs py_simps)

section \<open>Length-prefixed strings\<close>

text \<open>
  C10. The claim wants the \<open>length\<close> bytes after the prefix byte and a cursor advanced by
  \<open>1 + length\<close>. The \<^verbatim>\<open>'A'\<close> parser subscripts the frame with a tuple and raises
  TypeError on every frame. The \<^verbatim>\<open>'F'\<close> parser, on a frame whose prefix byte at cursor 2
  declares two bytes \<open>0x41, 0x42\<close>, returns the single byte \<open>0x41\<close> and the cursor
  \<open>1 + 2 = 3\<close> instead of \<open>2 + 1 + 2 = 5\<close>.
\<close>

theorem length_prefixed_strings_wrong:
  "ParseStringWithLength [0x02, 0x41, 0x42] 0 = Inl TypeError
   \<and> ParseStringWithLengthAndEncoding [0x00, 0x00, 0x02, 0x41, 0x42] 2
       = Inr (3, PList [PInt 0, PBytes [0x41]])"
  by (simp add: ParseStringWithLength_def ParseStringWithLengthAndEncoding_def py_simps)

section \<open>Unit resolution\<close>

text \<open>
  C6. A sensor-normal field list with kind 1 (temperature) and scale 0 resolves to a
  \<^verbatim>\<open>Value\<close> of kind "Temperature" and unit "C", whatever the reading. With scale 2,
  an empty slot of the temperature row, \<^verbatim>\<open>GetValue\<close> fails its assertion
  \<^verbatim>\<open>unit is not None\<close>: an error and no \<^verbatim>\<open>Value\<close>, with no unit put in its place.
\<close>

theorem sensor_normal_unit_resolution:
  "GetValue (VALUE_TYPE_SENSOR_NORMAL # rest) (PList [PInt 1, PList [PInt 0, reading]])
     = (Inr (mkValue (lit ''Temperature'') (lit ''C'') reading), rest)
   \<and> GetValue (VALUE_TYPE_SENSOR_NORMAL # rest) (PList [PInt 1, PList [PInt 2, reading]])
     = (Inl AssertionError, rest)"
  by (simp add: GetValue_def resolve_sensor_normal_def SENSOR_TYPES_def row_def
      SENSOR_KIND_TEMPERTATURE_def VALUE_TYPE_defs py_simps)

section \<open>Unknown commands\<close>

text \<open>
  If the subscript of the table raises, as the subscript of a dictionary does for a
  missing key, \<^verbatim>\<open>ParseCommand\<close> raises the same exception.
\<close>

lemma ParseCommand_lookup_raises:
  "table (cls * 256 + cmd) = Inl e \<Longrightarrow> ParseCommand table (cls # cmd # body) = Inl e"
  by (simp add: ParseCommand_def GetParameterDescriptors_def bindE_def)

text \<open>
  C5, as stated: a key absent from the table gives a distinguished unknown-command
  result. Where the lookup answers \<^verbatim>\<open>None\<close> for the absent key \<open>0x2503\<close>, the result is
  the empty list, which is also the result for the registered wake-up notification
  \<open>0x8407\<close> and for a frame of one byte: nothing in it tells the unknown command apart.
  Where the table is a dictionary, the absent key gives no result at all but KeyError.
\<close>

theorem ParseCommand_unknown_not_distinguished:
  "wakeup_table (0x25 * 256 + 0x03) = Inr None
   \<and> wakeup_table (0x84 * 256 + 0x07) = Inr (Some [])
   \<and> ParseCommand wakeup_table [0x25, 0x03, 0xFF] = Inr (Some [])
   \<and> ParseCommand wakeup_table [0x84, 0x07] = Inr (Some [])
   \<and> ParseCommand wakeup_table [0x25] = Inr (Some [])
   \<and> ParseCommand wakeup_dict [0x25, 0x03, 0xFF] = Inl KeyError"
  by (simp add: ParseCommand_def GetParameterDescriptors_def wakeup_table_def wakeup_dict_def
      bindE_def)

text \<open>
  C5, amended: for a frame of at least two bytes whose key \<open>class * 256 + command\<close> the
  table lookup answers with \<^verbatim>\<open>None\<close>, \<^verbatim>\<open>ParseCommand\<close> returns the empty list of
  fields, the same for every body, so no byte past the header is read; and the empty
  list is also what it returns were the key registered with a schema of no fields.
\<close>

theorem ParseCommand_unknown_command:
  assumes "table (cls * 256 + cmd) = Inr None"
  shows "ParseCommand table (cls # cmd # body) = Inr (Some [])
     \<and> ParseCommand (table (cls * 256 + cmd := Inr (Some []))) (cls # cmd # body) = Inr (Some [])"
  using assms by (simp add: ParseCommand_def GetParameterDescriptors_def bindE_def)

theorem ParseCommand_unknown_command_witness:
  "example_table (0x25 * 256 + 0x03) = Inr None
   \<and> ParseCommand example_table [0x25, 0x03, 0xFF, 0x00] = Inr (Some [])
   \<and> ParseCommand (example_table (0x25 * 256 + 0x03 := Inr (Some []))) [0x25, 0x03, 0xFF, 0x00]
       = Inr (Some [])"
proof -
  have h: "example_table (0x25 * 256 + 0x03) = Inr None"
    by (simp add: example_table_def)
  show ?thesis
    using ParseCommand_unknown_command [of example_table "0x25" "0x03" "[0xFF, 0x00]", OF h] h
    by simp
qed

section \<open>Strings with an encoding selector\<close>




section \<open>Resolving twice\<close>

text \<open>
  A call that returns a value has popped the first one, two or three elements off the
  action list and leaves the caller a strictly shorter list.
\<close>

lemma GetValue_pops_action:
  assumes "GetValue action vals = (Inr v, rest)"
  shows "length rest < length action
     \<and> (rest = drop 1 action \<or> rest = drop 2 action \<or> rest = drop 3 action)"
  using assms
  by (auto simp: GetValue_def pop0_def split: list.splits sum.splits if_splits)

text \<open>Two calls on the list object at one address are the two calls of \<open>GetValue_twice\<close>.\<close>

lemma GetValue_at_same_object:
  assumes "GetValue_at h a vals = (r1, h1)" and "GetValue_at h1 a vals = (r2, h2)"
  shows "GetValue_twice (h a) vals = (r1, r2)"
  using assms by (auto simp: GetValue_at_def GetValue_twice_def split: prod.splits)




section \<open>The round trip through the codec\<close>

subsection \<open>Reading a frame behind a prefix\<close>

lemma slice_at:
  "slice (pre @ xs @ post) (int (length pre)) (int (length pre) + int (length xs)) = xs"
  by (simp add: slice_def clip_def)

lemma slice_at_end:
  "slice (pre @ xs) (int (length pre)) (int (length pre) + (int (length (pre @ xs)) - int (length pre))) = xs"
  by (simp add: slice_def clip_def)

lemma and_255: "(255::int) AND y = y mod 256"
  using take_bit_eq_mask[of 8 y] take_bit_eq_mod[of 8 y]
  by (simp add: mask_eq_exp_minus_1 and.commute)

lemma MakeValue_loop_0: "MakeValue_loop x 0 data = data @ [x mod 256]"
  by (subst MakeValue_loop.simps, subst MakeValue_loop.simps) (simp add: and_255)

lemma MakeValue_loop_8: "MakeValue_loop x 8 data = data @ [(x div 2 ^ 8) mod 256, x mod 256]"
  by (subst MakeValue_loop.simps) (simp add: and_255 MakeValue_loop_0 drop_bit_eq_div)

lemma MakeValue_loop_16: "MakeValue_loop x 16 data = data @ [(x div 2 ^ 16) mod 256, (x div 2 ^ 8) mod 256, x mod 256]"
  by (subst MakeValue_loop.simps) (simp add: and_255 MakeValue_loop_8 drop_bit_eq_div)

lemma MakeValue_loop_24: "MakeValue_loop x 24 data = data @ [(x div 2 ^ 24) mod 256, (x div 2 ^ 16) mod 256, (x div 2 ^ 8) mod 256, x mod 256]"
  by (subst MakeValue_loop.simps) (simp add: and_255 MakeValue_loop_16 drop_bit_eq_div)

lemma big1: "0 \<le> x \<Longrightarrow> x < 2 ^ 8 \<Longrightarrow> GetIntBigEndian [x mod 256] = (x::int)"
  by (simp add: GetIntBigEndian_def)

lemma big2: "0 \<le> x \<Longrightarrow> x < 2 ^ 16 \<Longrightarrow> GetIntBigEndian [(x div 2 ^ 8) mod 256, x mod 256] = (x::int)"
  by (simp add: GetIntBigEndian_def push_bit_eq_mult)

lemma big4:
  assumes "0 \<le> x" "x < 2 ^ 32"
  shows "GetIntBigEndian [(x div 2 ^ 24) mod 256, (x div 2 ^ 16) mod 256, (x div 2 ^ 8) mod 256, x mod 256] = (x::int)"
proof -
  define a where "a = x div 256"
  define b where "b = a div 256"
  define c where "c = b div 256"
  have d8: "x div 2 ^ 8 = a" by (simp add: a_def)
  have d16: "x div 2 ^ 16 = b"
    using zdiv_zmult2_eq[of 256 x 256] by (simp add: a_def b_def)
  have d24: "x div 2 ^ 24 = c"
    using zdiv_zmult2_eq[of 65536 x 256] d16 by (simp add: c_def)
  have c: "c mod 256 = c" using assms d24 by simp
  have x: "x = 256 * a + x mod 256" by (simp add: a_def)
  have a: "a = 256 * b + a mod 256" by (simp add: b_def)
  have b: "b = 256 * c + b mod 256" by (simp add: c_def)
  have "256 * (256 * (256 * c + b mod 256) + a mod 256) + x mod 256 = x"
    using x a b by simp
  then show ?thesis
    unfolding d8 d16 d24 c by (simp add: GetIntBigEndian_def push_bit_eq_mult algebra_simps)
qed


lemma is_int_conv: "is_int v \<Longrightarrow> \<exists>n. v = PInt n"
  by (cases v) simp_all

lemma list_all_is_int_conv: "list_all is_int xs \<Longrightarrow> \<exists>ns. xs = map PInt ns"
proof (induction xs)
  case Nil
  then show ?case by simp
next
  case (Cons x xs)
  from Cons.prems obtain n where "x = PInt n"
    using is_int_conv by auto
  moreover from Cons obtain ns where "xs = map PInt ns"
    by auto
  ultimately have "x # xs = map PInt (n # ns)" by simp
  then show ?case by (rule exI)
qed

lemma is_int_list_conv: "is_int_list v \<Longrightarrow> \<exists>ns. v = int_list ns"
  by (cases v) (auto simp: int_list_def dest: list_all_is_int_conv)

lemma all_ints_map: "all_ints (map PInt ns) = Inr ns"
  by (induction ns) (simp_all add: bindE_def)

lemma extend_ints_int_list: "extend_ints (int_list ns) = Inr ns"
  by (simp add: int_list_def all_ints_map)

lemma field_B:
  assumes "arg_shape (CHR ''B'') v"
  shows "\<exists>bs. Assemble_field (CHR ''B'') v = Inr bs \<and> v \<noteq> PNone \<and>
          (\<forall>pre post. ParseByte (pre @ bs @ post) (int (length pre))
                        = Inr (int (length pre) + int (length bs), v))"
proof -
  obtain n where v: "v = PInt n"
    using assms is_int_conv by (auto simp: arg_shape_def)
  have "Assemble_field (CHR ''B'') v = Inr [n]"
    by (simp add: Assemble_field_def v bindE_def)
  moreover have "ParseByte (pre @ [n] @ post) (int (length pre)) = Inr (int (length pre) + int (length [n]), v)"
    for pre post
    by (simp add: ParseByte_def getitem_at bindE_def v)
  ultimately show ?thesis using v by blast
qed

lemma field_O:
  assumes "arg_shape (CHR ''O'') v"
  shows "\<exists>bs. Assemble_field (CHR ''O'') v = Inr bs \<and> v \<noteq> PNone \<and>
          (\<forall>pre post. ParseNonce (pre @ bs @ post) (int (length pre))
                        = Inr (int (length pre) + int (length bs), v))"
proof -
  obtain ns where v: "v = int_list ns"
    using assms is_int_list_conv by (auto simp: arg_shape_def)
  have len: "length ns = 8"
    using assms by (simp add: arg_shape_def v int_list_def)
  have "Assemble_field (CHR ''O'') v = Inr ns"
    by (simp add: Assemble_field_def v extend_ints_int_list bindE_def) (simp add: int_list_def)
  moreover have "ParseNonce (pre @ ns @ post) (int (length pre)) = Inr (int (length pre) + int (length ns), v)"
    for pre post
    using slice_at[of pre ns post] by (simp add: ParseNonce_def len v)
  ultimately show ?thesis using v by (auto simp: int_list_def)
qed

lemma field_rest:
  assumes "is_int_list v"
  shows "\<exists>bs. extend_ints v = Inr bs \<and> v \<noteq> PNone \<and>
          (\<forall>pre. ParseListRest (pre @ bs) (int (length pre))
                        = Inr (int (length pre) + int (length bs), v)) \<and>
          (\<forall>pre. ParseDataRest (pre @ bs) (int (length pre))
                        = Inr (int (length pre) + int (length bs), v))"
proof -
  obtain ns where v: "v = int_list ns"
    using assms is_int_list_conv by auto
  have "ParseListRest (pre @ ns) (int (length pre)) = Inr (int (length pre) + int (length ns), v)"
    for pre
    using slice_at_end[of pre ns] by (simp add: ParseListRest_def v)
  moreover have "ParseDataRest (pre @ ns) (int (length pre)) = Inr (int (length pre) + int (length ns), v)"
    for pre
    using slice_at_end[of pre ns] by (simp add: ParseDataRest_def v)
  ultimately show ?thesis using v extend_ints_int_list[of ns] by (auto simp: int_list_def)
qed


lemma list6: "length xs = 6 \<Longrightarrow> \<exists>a b c d e f. xs = [a, b, c, d, e, f]"
  by (auto simp: length_Suc_conv eval_nat_numeral)

lemma field_C:
  assumes "arg_shape (CHR ''C'') v"
  shows "\<exists>bs. Assemble_field (CHR ''C'') v = Inr bs \<and> v \<noteq> PNone \<and>
          (\<forall>pre post. ParseDate (pre @ bs @ post) (int (length pre))
                        = Inr (int (length pre) + int (length bs), v))"
proof -
  obtain ns where v: "v = int_list ns"
    using assms is_int_list_conv by (auto simp: arg_shape_def)
  have "length ns = 6"
    using assms by (simp add: arg_shape_def v int_list_def)
  then obtain y a b c d e where ns: "ns = [y, a, b, c, d, e]"
    using list6 by blast
  let ?bs = "[y div 256, y mod 256, a, b, c, d, e]"
  have asm: "Assemble_field (CHR ''C'') v = Inr ?bs"
    by (simp add: Assemble_field_def MakeDate_def v ns int_list_def bindE_def getitem_def)
  have "ParseDate (pre @ ?bs @ post) (int (length pre)) = Inr (int (length pre) + int (length ?bs), v)"
    for pre post
    using getitem_at[of pre "y div 256" "[y mod 256, a, b, c, d, e] @ post"]
      getitem_at_offset[of 1 ?bs pre post] getitem_at_offset[of 2 ?bs pre post]
      getitem_at_offset[of 3 ?bs pre post] getitem_at_offset[of 4 ?bs pre post]
      getitem_at_offset[of 5 ?bs pre post] getitem_at_offset[of 6 ?bs pre post]
    by (simp add: ParseDate_def bindE_def v ns int_list_def)
  then show ?thesis using asm v by (auto simp: int_list_def)
qed



lemma sized_conv:
  assumes "is_sized_value v"
  shows "\<exists>sz x. v = PList [PInt sz, PInt x] \<and> (sz = 1 \<or> sz = 2 \<or> sz = 4) \<and> 0 \<le> x \<and> x < 2 ^ (8 * nat sz)"
  using assms by (induction v rule: is_sized_value.induct) auto



lemma slice_after_one:
  "slice (pre @ x # xs @ post) (int (length pre) + 1) (int (length pre) + 1 + int (length xs)) = xs"
  by (simp add: slice_def clip_def nat_add_distrib)

lemma parse_V:
  assumes "sz = 1 \<or> sz = 2 \<or> sz = 4" "int (length bs) = sz" "GetIntBigEndian bs = x"
  shows "ParseValue (pre @ (sz # bs) @ post) (int (length pre))
      = Inr (int (length pre) + int (length (sz # bs)), PList [PInt sz, PInt x])"
proof -
  have and7: "sz AND 7 = sz" using assms(1) by auto
  have sl: "slice (pre @ sz # bs @ post) (int (length pre) + 1) (int (length pre) + 1 + sz) = bs"
    using slice_after_one[of pre sz bs post] unfolding assms(2) .
  have g: "getitem (pre @ sz # bs @ post) (int (length pre)) = Inr sz"
    by (rule getitem_at)
  have "ParseValue (pre @ sz # bs @ post) (int (length pre))
      = Inr (int (length pre) + 1 + sz, PList [PInt sz, PInt x])"
    unfolding ParseValue_def g bindE_def Let_def by (simp add: and7 sl assms(3))
  moreover have "int (length (sz # bs)) = 1 + sz"
    using assms(2) by simp
  ultimately show ?thesis by simp
qed


lemma field_V:
  assumes "arg_shape (CHR ''V'') v"
  shows "\<exists>bs. Assemble_field (CHR ''V'') v = Inr bs \<and> v \<noteq> PNone \<and>
          (\<forall>pre post. ParseValue (pre @ bs @ post) (int (length pre))
                        = Inr (int (length pre) + int (length bs), v))"
proof -
  from assms have "is_sized_value v" by (simp add: arg_shape_def)
  then obtain sz x where v: "v = PList [PInt sz, PInt x]"
    and sz: "sz = 1 \<or> sz = 2 \<or> sz = 4" and x: "0 \<le> x" "x < 2 ^ (8 * nat sz)"
    using sized_conv by blast
  have fin: ?thesis
    if "Assemble_field (CHR ''V'') v = Inr (sz # bs)" "int (length bs) = sz" "GetIntBigEndian bs = x"
    for bs
  proof (intro exI[of _ "sz # bs"] conjI allI)
    show "Assemble_field (CHR ''V'') v = Inr (sz # bs)" by (rule that(1))
    show "v \<noteq> PNone" by (simp add: v)
    show "ParseValue (pre @ (sz # bs) @ post) (int (length pre))
            = Inr (int (length pre) + int (length (sz # bs)), v)" for pre post
      unfolding v by (rule parse_V[OF sz that(2,3)])
  qed
  have asm: "Assemble_field (CHR ''V'') v = Inr (MakeValue_loop x ((sz - 1) * 8) [sz])"
    using sz by (auto simp add: Assemble_field_def MakeValue_def v bindE_def getitem_def Let_def
        simp del: MakeValue_loop.simps)
  from sz show ?thesis
  proof (elim disjE)
    assume s1: "sz = 1"
    show ?thesis
    proof (rule fin[of "[x mod 256]"])
      show "Assemble_field (CHR ''V'') v = Inr [sz, x mod 256]"
        unfolding asm by (simp add: s1 MakeValue_loop_0 del: MakeValue_loop.simps)
      show "int (length [x mod 256]) = sz" by (simp add: s1)
      show "GetIntBigEndian [x mod 256] = x" using x s1 by (intro big1) simp_all
    qed
  next
    assume s2: "sz = 2"
    show ?thesis
    proof (rule fin[of "[(x div 2 ^ 8) mod 256, x mod 256]"])
      show "Assemble_field (CHR ''V'') v = Inr [sz, (x div 2 ^ 8) mod 256, x mod 256]"
        unfolding asm by (simp add: s2 MakeValue_loop_8 del: MakeValue_loop.simps)
      show "int (length [(x div 2 ^ 8) mod 256, x mod 256]) = sz" by (simp add: s2)
      show "GetIntBigEndian [(x div 2 ^ 8) mod 256, x mod 256] = x"
        using x s2 by (intro big2) simp_all
    qed
  next
    assume s4: "sz = 4"
    show ?thesis
    proof (rule fin[of "[(x div 2 ^ 24) mod 256, (x div 2 ^ 16) mod 256, (x div 2 ^ 8) mod 256, x mod 256]"])
      show "Assemble_field (CHR ''V'') v =
          Inr [sz, (x div 2 ^ 24) mod 256, (x div 2 ^ 16) mod 256, (x div 2 ^ 8) mod 256, x mod 256]"
        unfolding asm by (simp add: s4 MakeValue_loop_24 del: MakeValue_loop.simps)
      show "int (length [(x div 2 ^ 24) mod 256, (x div 2 ^ 16) mod 256, (x div 2 ^ 8) mod 256, x mod 256]) = sz"
        by (simp add: s4)
      show "GetIntBigEndian [(x div 2 ^ 24) mod 256, (x div 2 ^ 16) mod 256, (x div 2 ^ 8) mod 256, x mod 256] = x"
        using x s4 by (intro big4) simp_all
    qed
  qed
qed


lemma drop_eq_Cons:
  assumes "drop n xs = y # ys"
  shows "n < length xs \<and> xs ! n = y \<and> drop (Suc n) xs = ys"
proof -
  have n: "n < length xs" using assms by (cases "n < length xs") auto
  then show ?thesis using Cons_nth_drop_Suc[OF n] assms by simp
qed

lemma field_fixed:
  assumes "arg_shape c v"
    and "c = CHR ''B'' \<or> c = CHR ''C'' \<or> c = CHR ''O'' \<or> c = CHR ''V''"
  shows "\<exists>bs p. Assemble_field c v = Inr bs \<and> PARSE_ACTIONS c = Some p \<and> v \<noteq> PNone \<and>
          (\<forall>pre post. p (pre @ bs @ post) (int (length pre))
                        = Inr (int (length pre) + int (length bs), v))"
  using assms(2)
proof (elim disjE)
  assume c: "c = CHR ''B''"
  show ?thesis using field_B[of v] assms(1) unfolding c by (simp add: PARSE_ACTIONS_def)
next
  assume c: "c = CHR ''C''"
  show ?thesis using field_C[of v] assms(1) unfolding c by (simp add: PARSE_ACTIONS_def)
next
  assume c: "c = CHR ''O''"
  show ?thesis using field_O[of v] assms(1) unfolding c by (simp add: PARSE_ACTIONS_def)
next
  assume c: "c = CHR ''V''"
  show ?thesis using field_V[of v] assms(1) unfolding c by (simp add: PARSE_ACTIONS_def)
qed

lemma field_last:
  assumes "arg_shape c v"
    and "c = CHR ''L'' \<or> c = CHR ''D''"
  shows "\<exists>bs p. Assemble_field c v = Inr bs \<and> PARSE_ACTIONS c = Some p \<and> v \<noteq> PNone \<and>
          (\<forall>pre. p (pre @ bs) (int (length pre))
                        = Inr (int (length pre) + int (length bs), v))"
proof -
  have "is_int_list v" using assms by (auto simp: arg_shape_def)
  from field_rest[OF this] show ?thesis
    using assms(2) by (auto simp: Assemble_field_def PARSE_ACTIONS_def)
qed

lemma roundtrip_loop:
  assumes "args_shape ts vs" and "drop (i + 2) raw_cmd = vs"
  shows "\<exists>body. (\<forall>data. AssembleCommand_loop ts i raw_cmd data = Inr (data @ body)) \<and>
               (\<forall>pre out. ParseCommand_loop (pre @ body) (int (length pre)) ts out
                             = Inr (Some (out @ vs)))"
  using assms
proof (induction ts arbitrary: vs i)
  case Nil
  then have "vs = []" by (cases vs) simp_all
  then show ?case by (intro exI[of _ "[]"]) simp
next
  case (Cons t ts)
  then obtain v vs' where vs: "vs = v # vs'" by (cases vs) simp_all
  obtain c t' where t: "t = c # t'" using Cons.prems(1) vs by (cases t) simp_all
  have shape: "arg_shape c v"
    and tail: "if c = CHR ''L'' \<or> c = CHR ''D'' then ts = [] \<and> vs' = [] else args_shape ts vs'"
    using Cons.prems(1) by (simp_all add: vs t)
  have raw: "getitem raw_cmd (int i + 2) = Inr v" and drop': "drop (Suc i + 2) raw_cmd = vs'"
    using drop_eq_Cons[of "i + 2" raw_cmd v vs'] Cons.prems(2) vs
    by (simp_all add: getitem_def nat_add_distrib)
  have tag: "getitem t 0 = Inr c" by (simp add: t getitem_def)
  have tags: "c = CHR ''B'' \<or> c = CHR ''C'' \<or> c = CHR ''O'' \<or> c = CHR ''V''
      \<or> c = CHR ''L'' \<or> c = CHR ''D''"
    using shape by (auto simp: arg_shape_def split: if_splits)
  show ?case
  proof (cases "c = CHR ''L'' \<or> c = CHR ''D''")
    case True
    then have e: "ts = []" "vs' = []" using tail by simp_all
    obtain bs p where bs: "Assemble_field c v = Inr bs" "PARSE_ACTIONS c = Some p" "v \<noteq> PNone"
      "\<And>pre. p (pre @ bs) (int (length pre)) = Inr (int (length pre) + int (length bs), v)"
      using field_last[OF shape True] by blast
    show ?thesis
    proof (intro exI[of _ bs] conjI allI)
      show "AssembleCommand_loop (t # ts) i raw_cmd data = Inr (data @ bs)" for data
        by (simp add: raw tag bs(1) bindE_def e)
      show "ParseCommand_loop (pre @ bs) (int (length pre)) (t # ts) out = Inr (Some (out @ vs))"
        for pre out
        by (simp add: tag bindE_def e vs bs(2,3,4))
    qed
  next
    case False
    with tags have fixed: "c = CHR ''B'' \<or> c = CHR ''C'' \<or> c = CHR ''O'' \<or> c = CHR ''V''"
      by blast
    obtain bs p where bs: "Assemble_field c v = Inr bs" "PARSE_ACTIONS c = Some p" "v \<noteq> PNone"
      "\<And>pre post. p (pre @ bs @ post) (int (length pre)) = Inr (int (length pre) + int (length bs), v)"
      using field_fixed[OF shape fixed] by blast
    from False tail have "args_shape ts vs'" by simp
    from Cons.IH[OF this drop'] obtain body
      where body: "\<And>data. AssembleCommand_loop ts (Suc i) raw_cmd data = Inr (data @ body)"
        "\<And>pre out. ParseCommand_loop (pre @ body) (int (length pre)) ts out = Inr (Some (out @ vs'))"
      by blast
    show ?thesis
    proof (intro exI[of _ "bs @ body"] conjI allI)
      show "AssembleCommand_loop (t # ts) i raw_cmd data = Inr (data @ bs @ body)" for data
        using body(1)[of "data @ bs"] by (simp add: raw tag bs(1) bindE_def)
      show "ParseCommand_loop (pre @ bs @ body) (int (length pre)) (t # ts) out
              = Inr (Some (out @ vs))" for pre out
        using body(2)[of "pre @ bs" "out @ [v]"]
        by (simp add: tag bindE_def vs bs(2,3,4))
    qed
  qed
qed

subsection \<open>The claim as stated, and as the code has it\<close>

text \<open>
  C1, as stated: every registered schema round-trips. It does not. A schema with the
  key tag \<^verbatim>\<open>'K'\<close> assembles from a 16-byte key, but \<^verbatim>\<open>_PARSE_ACTIONS\<close> has no
  entry \<^verbatim>\<open>'K'\<close>, and decoding the assembled frame raises KeyError. A schema with the
  name tag \<^verbatim>\<open>'N'\<close> assembles the single byte 1 whatever the name, and the frame decodes
  to the empty string.
\<close>

theorem roundtrip_counterexample:
  "bindE (AssembleCommand example_table
       [PInt 0x98, PInt 0x06,
        PList [PInt 1, PInt 2, PInt 3, PInt 4, PInt 5, PInt 6, PInt 7, PInt 8,
               PInt 9, PInt 10, PInt 11, PInt 12, PInt 13, PInt 14, PInt 15, PInt 16]])
     (ParseCommand example_table) = Inl KeyError
   \<and> bindE (AssembleCommand example_table [PInt 0x77, PInt 0x01, lit ''abc''])
     (ParseCommand example_table) = Inr (Some [lit []])"
  by (simp add: AssembleCommand_def Assemble_field_def ParseCommand_def
      GetParameterDescriptors_def PARSE_ACTIONS_def ParseName_def ENCODING_TO_DECODER_def
      decode_def latin1_decode_def example_table_def py_simps)

text \<open>
  C1, amended: for a schema made of the tags \<^verbatim>\<open>'B'\<close>, \<^verbatim>\<open>'C'\<close>, \<^verbatim>\<open>'O'\<close>, \<^verbatim>\<open>'V'\<close>, with
  \<^verbatim>\<open>'L'\<close> or \<^verbatim>\<open>'D'\<close> allowed as its last entry, and arguments of the shapes
  \<open>args_shape\<close>, assembling succeeds and decoding the assembled frame returns the
  arguments.
\<close>

theorem roundtrip_supported_tags:
  assumes "table (cls * 256 + cmd) = Inr (Some schema)" and "args_shape schema args"
  shows "bindE (AssembleCommand table (PInt cls # PInt cmd # args)) (ParseCommand table)
           = Inr (Some args)"
proof -
  obtain body
    where asm: "\<And>data. AssembleCommand_loop schema 0 (PInt cls # PInt cmd # args) data = Inr (data @ body)"
      and parse: "\<And>pre out. ParseCommand_loop (pre @ body) (int (length pre)) schema out = Inr (Some (out @ args))"
    using roundtrip_loop[OF assms(2), of 0 "PInt cls # PInt cmd # args"] by auto
  have "AssembleCommand table (PInt cls # PInt cmd # args) = Inr ([cls, cmd] @ body)"
    by (simp add: AssembleCommand_def getitem_def bindE_def assms(1) asm)
  moreover have "ParseCommand table ([cls, cmd] @ body) = Inr (Some args)"
    using parse[of "[cls, cmd]" "[]"]
    by (simp add: ParseCommand_def GetParameterDescriptors_def bindE_def assms(1))
  ultimately show ?thesis by (simp add: bindE_def)
qed

theorem roundtrip_supported_tags_witness:
  "example_table (0x01 * 256 + 0x02)
     = Inr (Some [''V{value}'', ''B{b}'', ''C{date}'', ''O{nonce}'', ''L{rest}''])
   \<and> args_shape [''V{value}'', ''B{b}'', ''C{date}'', ''O{nonce}'', ''L{rest}'']
        [PList [PInt 2, PInt 0x1234], PInt 7,
         PList [PInt 2026, PInt 11, PInt 4, PInt 12, PInt 30, PInt 0],
         PList [PInt 1, PInt 2, PInt 3, PInt 4, PInt 5, PInt 6, PInt 7, PInt 8],
         PList [PInt 9, PInt 10]]
   \<and> bindE (AssembleCommand example_table
        [PInt 0x01, PInt 0x02, PList [PInt 2, PInt 0x1234], PInt 7,
         PList [PInt 2026, PInt 11, PInt 4, PInt 12, PInt 30, PInt 0],
         PList [PInt 1, PInt 2, PInt 3, PInt 4, PInt 5, PInt 6, PInt 7, PInt 8],
         PList [PInt 9, PInt 10]]) (ParseCommand example_table)
      = Inr (Some
        [PList [PInt 2, PInt 0x1234], PInt 7,
         PList [PInt 2026, PInt 11, PInt 4, PInt 12, PInt 30, PInt 0],
         PList [PInt 1, PInt 2, PInt 3, PInt 4, PInt 5, PInt 6, PInt 7, PInt 8],
         PList [PInt 9, PInt 10]])"
proof -
  have t: "example_table (0x01 * 256 + 0x02)
     = Inr (Some [''V{value}'', ''B{b}'', ''C{date}'', ''O{nonce}'', ''L{rest}''])"
    by (simp add: example_table_def)
  have s: "args_shape [''V{value}'', ''B{b}'', ''C{date}'', ''O{nonce}'', ''L{rest}'']
        [PList [PInt 2, PInt 0x1234], PInt 7,
         PList [PInt 2026, PInt 11, PInt 4, PInt 12, PInt 30, PInt 0],
         PList [PInt 1, PInt 2, PInt 3, PInt 4, PInt 5, PInt 6, PInt 7, PInt 8],
         PList [PInt 9, PInt 10]]"
    by (simp add: arg_shape_def)
  show ?thesis using roundtrip_supported_tags[of example_table "0x01" "0x02", OF t s] t s by simp
qed

end
